theory Spec2Isabelle
  imports Main "HOL-Library.Finite_Map"
begin

section \<open>Data model of package merger\<close>

text \<open>
  Go strings and byte slices are byte sequences: both are \<open>string\<close> here. A Go map is
  a finite map (\<open>fmap\<close>); a map or pointer that the code compares with \<open>nil\<close> is an
  \<open>option\<close> around it, \<open>None\<close> being \<open>nil\<close>. A slice that the code compares with
  \<open>nil\<close> is a \<open>slice\<close>: \<open>None\<close> is the nil slice, \<open>Some xs\<close> a slice holding \<open>xs\<close>.
\<close>

type_synonym bytes = string

type_synonym 'a slice = "'a list option"

definition elems :: "'a slice \<Rightarrow> 'a list" where
  "elems s = (case s of None \<Rightarrow> [] | Some xs \<Rightarrow> xs)"

definition len :: "'a slice \<Rightarrow> nat" where
  "len s = length (elems s)"

text \<open>
  Go's \<open>append(s, xs...)\<close>: with nothing to add the slice comes back as it is (a nil
  slice stays nil), otherwise the result holds the old elements followed by the new.
\<close>

definition go_append :: "'a slice \<Rightarrow> 'a list \<Rightarrow> 'a slice" where
  "go_append s xs = (if xs = [] then s else Some (elems s @ xs))"

record SwaggerVersion =
  Version :: string
  IsYAML :: bool

record Server =
  URL :: string
  Description :: string

record Config =
  InputPaths :: "string list"
  OutputPath :: string
  Servers :: "Server slice"

record Merger =
  config :: Config

text \<open>
  Every \<open>fmt.Errorf\<close> of the package is one constructor, carrying what the message
  interpolates; an error of a library call is kept as its rendered text.
  \<^item> \<open>UnableToDetect\<close>: "unable to detect swagger/openapi version"
  \<^item> \<open>LibraryError\<close>: an error of \<open>loader.LoadFromData\<close>, returned unwrapped
  \<^item> \<open>FailedParseYAML\<close>: "failed to parse YAML to map: ..."
  \<^item> \<open>FailedMarshalJSON\<close>: "failed to marshal YAML to JSON: ..."
  \<^item> \<open>FailedParseSwagger2\<close>: "failed to parse Swagger2 JSON: ..."
  \<^item> \<open>ConvertFailed\<close>: "convert to openapi 3.0 failed: ..."
  \<^item> \<open>NoDocuments\<close>: "no documents to merge"
  \<^item> \<open>FetchURLFailed path err\<close>: "failed to fetch URL path: err"
  \<^item> \<open>HTTPStatusFailed status path\<close>: "HTTP request failed with status ... for URL path"
  \<^item> \<open>ReadBodyFailed path err\<close>: "failed to read response body from path: err"
  \<^item> \<open>ReadFileFailed path err\<close>: "failed to read file path: err"
  \<^item> \<open>FailedRead\<close>, \<open>FailedDetect\<close>, \<open>FailedConvert\<close>: the three wrappers of
    \<open>processSwaggerFile\<close>, each naming the file path
  \<^item> \<open>NoInputPaths\<close>: "no input paths provided"
  \<^item> \<open>OutputPathRequired\<close>: "output path is required"
  \<^item> \<open>ErrorProcessing path err\<close>: "error processing path: err"
  \<^item> \<open>ErrorMerging\<close>: "error merging documents: ..."
  \<^item> \<open>ErrorMarshalYAML\<close>: "error marshaling to YAML: ..."
  \<^item> \<open>ErrorWritingFile\<close>: "error writing file: ..."
  \<^item> \<open>NilDereference\<close>: the run-time panic of a nil pointer dereference
\<close>

datatype error =
    UnableToDetect
  | LibraryError string
  | FailedParseYAML string
  | FailedMarshalJSON string
  | FailedParseSwagger2 string
  | ConvertFailed string
  | NoDocuments
  | FetchURLFailed string string
  | HTTPStatusFailed int string
  | ReadBodyFailed string string
  | ReadFileFailed string string
  | FailedRead string error
  | FailedDetect string error
  | FailedConvert string error
  | NoInputPaths
  | OutputPathRequired
  | ErrorProcessing string error
  | ErrorMerging error
  | ErrorMarshalYAML string
  | ErrorWritingFile string
  | NilDereference

subsection \<open>The OpenAPI 3 document\<close>

text \<open>
  Modelled from the spec: the document type \<open>openapi3.T\<close> and its parts are declared by
  the kin-openapi library, which is not among the sources. The records keep the fields
  that package merger reads or writes, shaped as the spec's data model and the code's
  own uses fix them: \<open>paths\<close> is a mapping from path to PathItem behind a pointer that is
  compared with \<open>nil\<close>; \<open>components\<close> is a structure of five mappings from name to
  definition, each compared with \<open>nil\<close>; \<open>servers\<close> and \<open>tags\<close> are ordered sequences.
  The structure of components sits behind a pointer too (\<open>*openapi3.Components\<close>, in the
  releases of the library that have the methods \<open>Map\<close> and \<open>Set\<close> of \<open>Paths\<close> the code
  calls): it is nil in a document that has no components section, and \<open>None\<close> here.
  The definitions stored in the mappings are opaque to the merger and are type
  parameters: \<open>'p\<close> PathItem, \<open>'s\<close> SchemaRef, \<open>'r\<close> ResponseRef, \<open>'q\<close> ParameterRef,
  \<open>'b\<close> RequestBodyRef, \<open>'h\<close> HeaderRef. Fields the merger never touches live in the
  records' extension part. Field \<open>Servers\<close> of the document is \<open>Servers3\<close>, and the
  fields \<open>URL\<close> and \<open>Description\<close> of \<open>openapi3.Server\<close> are \<open>srvURL\<close> and
  \<open>srvDescription\<close>, since \<open>Config\<close> and \<open>Server\<close> of package merger own these names.
\<close>

record openapi3_Server =
  srvURL :: string
  srvDescription :: string

record Tag =
  Name :: string

record Info =
  Title :: string
  InfoVersion :: string

record ('s, 'r, 'q, 'b, 'h) Components =
  Schemas :: "(string, 's) fmap option"
  Responses :: "(string, 'r) fmap option"
  Parameters :: "(string, 'q) fmap option"
  RequestBodies :: "(string, 'b) fmap option"
  Headers :: "(string, 'h) fmap option"

record ('p, 's, 'r, 'q, 'b, 'h) T =
  OpenAPI :: string
  Components :: "('s, 'r, 'q, 'b, 'h) Components option"
  Info :: "Info option"
  Paths :: "(string, 'p) fmap option"
  Servers3 :: "openapi3_Server list"
  Tags :: "Tag slice"

text \<open>
  Modelled from the spec: the methods \<open>Map\<close> and \<open>Set\<close> of \<open>openapi3.Paths\<close>, on a
  non-nil receiver. \<open>Map\<close> gives the mapping from path to PathItem, \<open>Set\<close> stores one
  entry, replacing an entry of the same key.
\<close>

definition Paths_Map :: "(string, 'p) fmap \<Rightarrow> (string, 'p) fmap" where
  "Paths_Map paths = paths"

definition Paths_Set :: "string \<Rightarrow> 'p \<Rightarrow> (string, 'p) fmap \<Rightarrow> (string, 'p) fmap" where
  "Paths_Set key val paths = fmupd key val paths"

section \<open>New and DefaultServers\<close>

definition DefaultServers :: "Server slice" where
  "DefaultServers = Some
    [\<lparr>URL = ''https://api-dev.domain.com'', Description = ''Development Environment''\<rparr>,
     \<lparr>URL = ''https://api-test.domain.com'', Description = ''Test Environment''\<rparr>,
     \<lparr>URL = ''https://api-stg.domain.com'', Description = ''Staging Environment''\<rparr>,
     \<lparr>URL = ''https://api.domain.com'', Description = ''Production Environment''\<rparr>]"

definition New :: "Config \<Rightarrow> Merger" where
  "New cfg =
     \<lparr>config = (if Servers cfg = None then cfg\<lparr>Servers := DefaultServers\<rparr> else cfg)\<rparr>"

section \<open>mergeOpenAPI3\<close>

text \<open>
  A loop \<open>for k, v := range src { dst[k] = v }\<close> stores every entry of \<open>src\<close> into
  \<open>dst\<close>. The keys of \<open>src\<close> are distinct, so the order in which Go visits them does
  not show in the result: \<open>dst\<close> overridden by \<open>src\<close>. Lemma \<open>range_store_is_loop\<close>
  below relates this to the loop run over any enumeration of the entries.

  The first document is updated in place. The documents of the sequence are distinct
  objects (each is built by its own call of \<open>processSwaggerFile\<close>), so the updates are
  state passing on the accumulator \<open>merged\<close>.

  A nil pointer dereference is a run-time panic: the function does not return. It is the
  result \<open>Inl NilDereference\<close>.
\<close>

definition range_store :: "('k, 'v) fmap \<Rightarrow> ('k, 'v) fmap \<Rightarrow> ('k, 'v) fmap" where
  "range_store dst src = dst ++\<^sub>f src"

text \<open>Lines 139 to 146: the paths of \<open>doc\<close> go into the accumulator.\<close>

definition merge_paths ::
  "('p, 's, 'r, 'q, 'b, 'h) T \<Rightarrow> ('p, 's, 'r, 'q, 'b, 'h) T \<Rightarrow> ('p, 's, 'r, 'q, 'b, 'h) T" where
  "merge_paths merged doc =
     (case Paths doc of
        None \<Rightarrow> merged
      | Some dp \<Rightarrow>
          (case Paths merged of
             None \<Rightarrow> merged\<lparr>Paths := Some (range_store fmempty (Paths_Map dp))\<rparr>
           | Some mp \<Rightarrow> merged\<lparr>Paths := Some (range_store mp (Paths_Map dp))\<rparr>))"

text \<open>
  Lines 149 to 163, past the dereference of \<open>merged.Components\<close>: a nil mapping of the
  accumulator's components becomes empty.
\<close>

definition init_nil :: "('k, 'v) fmap option \<Rightarrow> ('k, 'v) fmap option" where
  "init_nil m = (if m = None then Some fmempty else m)"

definition init_components ::
  "('s, 'r, 'q, 'b, 'h) Components \<Rightarrow> ('s, 'r, 'q, 'b, 'h) Components" where
  "init_components c =
     c\<lparr>Schemas := init_nil (Schemas c),
       Responses := init_nil (Responses c),
       Parameters := init_nil (Parameters c),
       RequestBodies := init_nil (RequestBodies c),
       Headers := init_nil (Headers c)\<rparr>"

text \<open>
  Lines 166 to 190, past the dereference of \<open>doc.Components\<close>: each non-nil mapping of
  \<open>doc\<close>'s components is stored into the
  accumulator's mapping of the same name. The accumulator's mapping has been initialised
  before; a store into a nil map is a panic in Go and cannot happen here.
\<close>

definition store_all :: "('k, 'v) fmap option \<Rightarrow> ('k, 'v) fmap option \<Rightarrow> ('k, 'v) fmap option" where
  "store_all dst src =
     (case src of
        None \<Rightarrow> dst
      | Some s \<Rightarrow> (case dst of None \<Rightarrow> None | Some d \<Rightarrow> Some (range_store d s)))"

definition merge_components ::
  "('s, 'r, 'q, 'b, 'h) Components \<Rightarrow> ('s, 'r, 'q, 'b, 'h) Components
     \<Rightarrow> ('s, 'r, 'q, 'b, 'h) Components" where
  "merge_components c d =
     c\<lparr>Schemas := store_all (Schemas c) (Schemas d),
       Responses := store_all (Responses c) (Responses d),
       Parameters := store_all (Parameters c) (Parameters d),
       RequestBodies := store_all (RequestBodies c) (RequestBodies d),
       Headers := store_all (Headers c) (Headers d)\<rparr>"

text \<open>Lines 193 to 195: the tags of \<open>doc\<close> are appended.\<close>

definition merge_tags ::
  "('p, 's, 'r, 'q, 'b, 'h) T \<Rightarrow> ('p, 's, 'r, 'q, 'b, 'h) T \<Rightarrow> ('p, 's, 'r, 'q, 'b, 'h) T" where
  "merge_tags merged doc =
     (if Tags doc \<noteq> None then merged\<lparr>Tags := go_append (Tags merged) (elems (Tags doc))\<rparr>
      else merged)"

text \<open>
  One pass of the loop body, lines 136 to 195. Line 149 reads \<open>merged.Components.Schemas\<close>
  and line 166 reads \<open>doc.Components.Schemas\<close>, neither behind a test of the pointer: the
  pass panics when the accumulator, and then when \<open>doc\<close>, has no components. The paths
  have been merged by then, the tags have not.
\<close>

definition merge_doc ::
  "('p, 's, 'r, 'q, 'b, 'h) T \<Rightarrow> ('p, 's, 'r, 'q, 'b, 'h) T
     \<Rightarrow> error + ('p, 's, 'r, 'q, 'b, 'h) T" where
  "merge_doc merged doc =
     (let m1 = merge_paths merged doc in
      case Components m1 of
        None \<Rightarrow> Inl NilDereference
      | Some mc \<Rightarrow>
          (let m2 = m1\<lparr>Components := Some (init_components mc)\<rparr> in
           case Components doc of
             None \<Rightarrow> Inl NilDereference
           | Some dc \<Rightarrow>
               (let m3 = m2\<lparr>Components := Some (merge_components (init_components mc) dc)\<rparr>
                in Inr (merge_tags m3 doc))))"

text \<open>The loop \<open>for i := 1; i < len(docs); i++\<close> over the documents after the first.\<close>

fun merge_loop ::
  "('p, 's, 'r, 'q, 'b, 'h) T \<Rightarrow> ('p, 's, 'r, 'q, 'b, 'h) T list
     \<Rightarrow> error + ('p, 's, 'r, 'q, 'b, 'h) T" where
  "merge_loop merged [] = Inr merged"
| "merge_loop merged (doc # rest) =
     (case merge_doc merged doc of
        Inl err \<Rightarrow> Inl err
      | Inr merged' \<Rightarrow> merge_loop merged' rest)"

definition mergeOpenAPI3 ::
  "('p, 's, 'r, 'q, 'b, 'h) T list \<Rightarrow> error + ('p, 's, 'r, 'q, 'b, 'h) T" where
  "mergeOpenAPI3 docs =
     (case docs of
        [] \<Rightarrow> Inl NoDocuments
      | first # rest \<Rightarrow> merge_loop first rest)"

section \<open>Library and operating-system primitives\<close>

text \<open>
  The YAML and JSON libraries, kin-openapi, the HTTP client and the file system are not
  part of the repository. Each call the package makes to them is a field of one of the
  records below, so every property holds whatever these primitives do.

  \<open>yaml.Unmarshal(data, &obj)\<close> and \<open>json.Unmarshal(data, &obj)\<close> receive the
  address of the map: they take the map as it is and give back the error (\<open>None\<close> is a
  nil error) and the map as they leave it. \<open>Sprintf_v\<close> is \<open>fmt.Sprintf("%v", _)\<close>.
\<close>

record 'v encoding =
  yaml_Unmarshal :: "bytes \<Rightarrow> (string, 'v) fmap \<Rightarrow> string option \<times> (string, 'v) fmap"
  json_Unmarshal :: "bytes \<Rightarrow> (string, 'v) fmap \<Rightarrow> string option \<times> (string, 'v) fmap"
  json_Marshal :: "(string, 'v) fmap \<Rightarrow> string + bytes"
  Sprintf_v :: "'v \<Rightarrow> string"

text \<open>
  \<open>'w\<close> is the Swagger 2 document \<open>openapi2.T\<close>. \<open>Paths_Map_nil\<close> is what the method
  \<open>Map\<close> of \<open>openapi3.Paths\<close> does on a nil receiver: \<open>None\<close> when it dereferences the
  receiver (a panic), \<open>Some m\<close> when it returns the mapping \<open>m\<close>.
\<close>

record ('w, 'p, 's, 'r, 'q, 'b, 'h) kin_openapi =
  LoadFromData :: "bytes \<Rightarrow> string + ('p, 's, 'r, 'q, 'b, 'h) T"
  openapi2_UnmarshalJSON :: "bytes \<Rightarrow> string + 'w"
  ToV3 :: "'w \<Rightarrow> string + ('p, 's, 'r, 'q, 'b, 'h) T"
  yaml_Marshal :: "('p, 's, 'r, 'q, 'b, 'h) T \<Rightarrow> string + bytes"
  Paths_Map_nil :: "(string, 'p) fmap option"

text \<open>
  A response of \<open>client.Get\<close>: its status code and what \<open>io.ReadAll(resp.Body)\<close>
  gives. \<open>'fs\<close> is the state of the file system; \<open>os_WriteFile\<close> returns the state it
  leaves behind, also when it fails.
\<close>

record response =
  StatusCode :: int
  Body :: "string + bytes"

record 'fs system =
  http_Get :: "string \<Rightarrow> string + response"
  os_ReadFile :: "'fs \<Rightarrow> string \<Rightarrow> string + bytes"
  os_WriteFile :: "'fs \<Rightarrow> string \<Rightarrow> bytes \<Rightarrow> string option \<times> 'fs"

definition HasPrefix :: "string \<Rightarrow> string \<Rightarrow> bool" where
  "HasPrefix s prefix = (length prefix \<le> length s \<and> take (length prefix) s = prefix)"

definition StatusOK :: int where
  "StatusOK = 200"

section \<open>detectSwaggerVersion\<close>

text \<open>
  The two lookups made after each decode, lines 68 to 73 and 78 to 83: key \<open>swagger\<close>
  first, then key \<open>openapi\<close>; \<open>yaml\<close> is the flag stored in \<open>IsYAML\<close>.
\<close>

definition inspect_keys :: "'v encoding \<Rightarrow> (string, 'v) fmap \<Rightarrow> bool \<Rightarrow> SwaggerVersion option" where
  "inspect_keys E obj yaml =
     (case fmlookup obj ''swagger'' of
        Some version \<Rightarrow> Some \<lparr>Version = Sprintf_v E version, IsYAML = yaml\<rparr>
      | None \<Rightarrow>
          (case fmlookup obj ''openapi'' of
             Some version \<Rightarrow> Some \<lparr>Version = Sprintf_v E version, IsYAML = yaml\<rparr>
           | None \<Rightarrow> None))"

text \<open>What the "Try YAML first" block returns, \<open>None\<close> when control falls through it.\<close>

definition try_yaml :: "'v encoding \<Rightarrow> bytes \<Rightarrow> SwaggerVersion option" where
  "try_yaml E data =
     (case yaml_Unmarshal E data fmempty of
        (Some err, obj) \<Rightarrow> None
      | (None, obj) \<Rightarrow> inspect_keys E obj True)"

text \<open>
  What the "Try JSON" block returns. It decodes into the same variable \<open>obj\<close>, as the
  YAML attempt left it.
\<close>

definition try_json :: "'v encoding \<Rightarrow> bytes \<Rightarrow> SwaggerVersion option" where
  "try_json E data =
     (case json_Unmarshal E data (snd (yaml_Unmarshal E data fmempty)) of
        (Some err, obj) \<Rightarrow> None
      | (None, obj) \<Rightarrow> inspect_keys E obj False)"

definition detectSwaggerVersion :: "'v encoding \<Rightarrow> bytes \<Rightarrow> error + SwaggerVersion" where
  "detectSwaggerVersion E data =
     (case try_yaml E data of
        Some v \<Rightarrow> Inr v
      | None \<Rightarrow>
          (case try_json E data of
             Some v \<Rightarrow> Inr v
           | None \<Rightarrow> Inl UnableToDetect))"

section \<open>convertToOpenAPI3\<close>

text \<open>Lines 100 to 110: a YAML document is decoded and encoded again as JSON.\<close>

definition yaml_to_json :: "'v encoding \<Rightarrow> bytes \<Rightarrow> error + bytes" where
  "yaml_to_json E data =
     (case yaml_Unmarshal E data fmempty of
        (Some err, jsonObj) \<Rightarrow> Inl (FailedParseYAML err)
      | (None, jsonObj) \<Rightarrow>
          (case json_Marshal E jsonObj of
             Inl err \<Rightarrow> Inl (FailedMarshalJSON err)
           | Inr jsonBytes \<Rightarrow> Inr jsonBytes))"

definition convertToOpenAPI3 ::
  "'v encoding \<Rightarrow> ('w, 'p, 's, 'r, 'q, 'b, 'h) kin_openapi \<Rightarrow> bytes \<Rightarrow> SwaggerVersion
     \<Rightarrow> error + ('p, 's, 'r, 'q, 'b, 'h) T" where
  "convertToOpenAPI3 E K data version =
     (if HasPrefix (Version version) ''3.'' then
        (case LoadFromData K data of
           Inl err \<Rightarrow> Inl (LibraryError err)
         | Inr doc \<Rightarrow> Inr doc)
      else
        (case (if IsYAML version then yaml_to_json E data else Inr data) of
           Inl err \<Rightarrow> Inl err
         | Inr json \<Rightarrow>
             (case openapi2_UnmarshalJSON K json of
                Inl err \<Rightarrow> Inl (FailedParseSwagger2 err)
              | Inr swagger2Doc \<Rightarrow>
                  (case ToV3 K swagger2Doc of
                     Inl err \<Rightarrow> Inl (ConvertFailed err)
                   | Inr openapi3Doc \<Rightarrow> Inr openapi3Doc))))"

section \<open>readDataFromPath\<close>

definition readDataFromPath :: "'fs system \<Rightarrow> 'fs \<Rightarrow> string \<Rightarrow> error + bytes" where
  "readDataFromPath W fs path =
     (if HasPrefix path ''http://'' \<or> HasPrefix path ''https://'' then
        (case http_Get W path of
           Inl err \<Rightarrow> Inl (FetchURLFailed path err)
         | Inr resp \<Rightarrow>
             if StatusCode resp \<noteq> StatusOK then Inl (HTTPStatusFailed (StatusCode resp) path)
             else
               (case Body resp of
                  Inl err \<Rightarrow> Inl (ReadBodyFailed path err)
                | Inr data \<Rightarrow> Inr data))
      else
        (case os_ReadFile W fs path of
           Inl err \<Rightarrow> Inl (ReadFileFailed path err)
         | Inr data \<Rightarrow> Inr data))"

section \<open>processSwaggerFile\<close>

text \<open>Lines 264 to 270: one \<open>openapi3.Server\<close> for each configured server, in order.\<close>

definition override_servers :: "Server slice \<Rightarrow> openapi3_Server list" where
  "override_servers servers =
     map (\<lambda>server. \<lparr>srvURL = URL server, srvDescription = Description server\<rparr>) (elems servers)"

definition processSwaggerFile ::
  "'v encoding \<Rightarrow> ('w, 'p, 's, 'r, 'q, 'b, 'h) kin_openapi \<Rightarrow> 'fs system \<Rightarrow> Merger \<Rightarrow> 'fs
     \<Rightarrow> string \<Rightarrow> error + ('p, 's, 'r, 'q, 'b, 'h) T" where
  "processSwaggerFile E K W m fs filePath =
     (case readDataFromPath W fs filePath of
        Inl err \<Rightarrow> Inl (FailedRead filePath err)
      | Inr data \<Rightarrow>
          (case detectSwaggerVersion E data of
             Inl err \<Rightarrow> Inl (FailedDetect filePath err)
           | Inr version \<Rightarrow>
               (case convertToOpenAPI3 E K data version of
                  Inl err \<Rightarrow> Inl (FailedConvert filePath err)
                | Inr doc \<Rightarrow>
                    Inr (doc\<lparr>OpenAPI := ''3.0.1'',
                             Servers3 := override_servers (Servers (config m))\<rparr>))))"

section \<open>Merge\<close>

text \<open>
  The loop over the input paths, shared by \<open>Merge\<close> and \<open>GetStats\<close>: it stops at the
  first path that fails, and otherwise appends each document to \<open>docs\<close>.
\<close>

fun process_files ::
  "'v encoding \<Rightarrow> ('w, 'p, 's, 'r, 'q, 'b, 'h) kin_openapi \<Rightarrow> 'fs system \<Rightarrow> Merger \<Rightarrow> 'fs
     \<Rightarrow> string list \<Rightarrow> ('p, 's, 'r, 'q, 'b, 'h) T list
     \<Rightarrow> error + ('p, 's, 'r, 'q, 'b, 'h) T list" where
  "process_files E K W m fs [] docs = Inr docs"
| "process_files E K W m fs (filePath # rest) docs =
     (case processSwaggerFile E K W m fs filePath of
        Inl err \<Rightarrow> Inl (ErrorProcessing filePath err)
      | Inr doc \<Rightarrow> process_files E K W m fs rest (docs @ [doc]))"

text \<open>
  Lines 297 to 300 and 367 to 370: an error that \<open>mergeOpenAPI3\<close> returns is wrapped. A
  panic inside \<open>mergeOpenAPI3\<close> is not an error value: it unwinds the caller as it is.
\<close>

definition merge_failure :: "error \<Rightarrow> error" where
  "merge_failure err = (if err = NilDereference then NilDereference else ErrorMerging err)"


section \<open>GetStats\<close>

record Stats =
  total_files :: nat
  total_paths :: nat
  total_schemas :: nat
  total_tags :: nat

text \<open>
  \<open>merged.Paths.Map()\<close> of line 374, where \<open>merged.Paths\<close> may be nil: on a nil receiver
  the outcome is the library's. Line 375 then reads \<open>merged.Components.Schemas\<close> with no
  test of the pointer, a panic for a document without components.
\<close>

definition Paths_Map_ptr ::
  "('w, 'p, 's, 'r, 'q, 'b, 'h) kin_openapi \<Rightarrow> (string, 'p) fmap option \<Rightarrow> (string, 'p) fmap option" where
  "Paths_Map_ptr K paths = (case paths of None \<Rightarrow> Paths_Map_nil K | Some p \<Rightarrow> Some (Paths_Map p))"

text \<open>\<open>len\<close> of a Go map, which is 0 for a nil map.\<close>

definition len_map :: "('k, 'v) fmap option \<Rightarrow> nat" where
  "len_map m = (case m of None \<Rightarrow> 0 | Some f \<Rightarrow> card (fmdom' f))"

definition GetStats ::
  "'v encoding \<Rightarrow> ('w, 'p, 's, 'r, 'q, 'b, 'h) kin_openapi \<Rightarrow> 'fs system \<Rightarrow> Merger \<Rightarrow> 'fs
     \<Rightarrow> error + Stats" where
  "GetStats E K W m fs =
     (if length (InputPaths (config m)) = 0 then Inl NoInputPaths
      else
        (case process_files E K W m fs (InputPaths (config m)) [] of
           Inl err \<Rightarrow> Inl err
         | Inr docs \<Rightarrow>
             (case mergeOpenAPI3 docs of
                Inl err \<Rightarrow> Inl (merge_failure err)
              | Inr merged \<Rightarrow>
                  (case Paths_Map_ptr K (Paths merged) of
                     None \<Rightarrow> Inl NilDereference
                   | Some pm \<Rightarrow>
                       (case Components merged of
                          None \<Rightarrow> Inl NilDereference
                        | Some mc \<Rightarrow>
                            Inr \<lparr>total_files = length (InputPaths (config m)),
                                 total_paths = len_map (Some pm),
                                 total_schemas = len_map (Schemas mc),
                                 total_tags = len (Tags merged)\<rparr>)))))"

section \<open>Notions used to state the properties\<close>

text \<open>
  The path mapping a document declares: that of its paths object, and the empty mapping
  when the document has none.
\<close>

definition paths_of :: "('p, 's, 'r, 'q, 'b, 'h) T \<Rightarrow> (string, 'p) fmap" where
  "paths_of d = (case Paths d of None \<Rightarrow> fmempty | Some p \<Rightarrow> Paths_Map p)"

text \<open>A decoded map holds one of the two keys the detector looks for.\<close>

definition recognized :: "(string, 'v) fmap \<Rightarrow> bool" where
  "recognized obj = (fmlookup obj ''swagger'' \<noteq> None \<or> fmlookup obj ''openapi'' \<noteq> None)"

text \<open>The rendered value of key \<open>swagger\<close> if the map has it, else that of key \<open>openapi\<close>.\<close>

definition version_in :: "'v encoding \<Rightarrow> (string, 'v) fmap \<Rightarrow> string" where
  "version_in E obj =
     (case fmlookup obj ''swagger'' of
        Some x \<Rightarrow> Sprintf_v E x
      | None \<Rightarrow> (case fmlookup obj ''openapi'' of Some x \<Rightarrow> Sprintf_v E x | None \<Rightarrow> []))"

section \<open>Example inputs\<close>

text \<open>
  Concrete primitives and inputs at which the theorems are instantiated. The decoded
  values are strings and nested maps, rendered as \<open>%v\<close> renders them.
\<close>

datatype any = AString string | AMap "(string \<times> any) list"

fun Sprintf_any :: "any \<Rightarrow> string" and Sprintf_entries :: "(string \<times> any) list \<Rightarrow> string" where
  "Sprintf_any (AString s) = s"
| "Sprintf_any (AMap kvs) = ''map['' @ Sprintf_entries kvs @ '']''"
| "Sprintf_entries [] = []"
| "Sprintf_entries [(k, v)] = k @ '':'' @ Sprintf_any v"
| "Sprintf_entries ((k, v) # kv # kvs) = k @ '':'' @ Sprintf_any v @ '' '' @ Sprintf_entries (kv # kvs)"

definition json_swagger2 :: bytes where
  \<open>json_swagger2 = ''{"swagger":"2.0","info":{}}''\<close>

definition json_swagger2_dup :: bytes where
  \<open>json_swagger2_dup = ''{"swagger":"2.0","info":{},"info":{}}''\<close>

definition yaml_openapi3 :: bytes where
  \<open>yaml_openapi3 = ''openapi: "3.0.1"'' @ [CHR 0x0A] @ ''info:'' @ [CHR 0x0A] @ ''  title: X''\<close>

definition swagger2_obj :: "(string, any) fmap" where
  "swagger2_obj = fmap_of_list [(''swagger'', AString ''2.0''), (''info'', AMap [])]"

definition openapi3_obj :: "(string, any) fmap" where
  "openapi3_obj =
     fmap_of_list [(''openapi'', AString ''3.0.1''), (''info'', AMap [(''title'', AString ''X'')])]"

text \<open>
  The example YAML decoder accepts the block-style document and the JSON object (a JSON
  object is a YAML flow mapping) and rejects the object with a repeated key; the example
  JSON decoder accepts both JSON objects.
\<close>

definition example_encoding :: "any encoding" where
  "example_encoding =
     \<lparr>yaml_Unmarshal = (\<lambda>data obj.
        if data = json_swagger2 then (None, obj ++\<^sub>f swagger2_obj)
        else if data = yaml_openapi3 then (None, obj ++\<^sub>f openapi3_obj)
        else (Some ''yaml: unmarshal errors'', obj)),
      json_Unmarshal = (\<lambda>data obj.
        if data = json_swagger2 \<or> data = json_swagger2_dup then (None, obj ++\<^sub>f swagger2_obj)
        else (Some ''invalid character'', obj)),
      json_Marshal = (\<lambda>obj. Inr json_swagger2),
      Sprintf_v = Sprintf_any\<rparr>"

definition tag_A :: Tag where "tag_A = \<lparr>Name = ''A''\<rparr>"
definition tag_B :: Tag where "tag_B = \<lparr>Name = ''B''\<rparr>"
definition tag_C :: Tag where "tag_C = \<lparr>Name = ''C''\<rparr>"

definition doc1 :: "(nat, nat, nat, nat, nat, nat) T" where
  "doc1 =
     \<lparr>OpenAPI = ''3.0.0'',
      Components = Some \<lparr>Schemas = Some (fmap_of_list [(''S1'', 1)]), Responses = None,
        Parameters = None, RequestBodies = None, Headers = None\<rparr>,
      Info = Some \<lparr>Title = ''X'', InfoVersion = ''1.0.0''\<rparr>,
      Paths = Some (fmap_of_list [(''/a'', 1), (''/shared'', 10)]),
      Servers3 = [\<lparr>srvURL = ''https://declared.example'', srvDescription = ''declared''\<rparr>],
      Tags = Some [tag_A, tag_B]\<rparr>"

definition doc2 :: "(nat, nat, nat, nat, nat, nat) T" where
  "doc2 =
     \<lparr>OpenAPI = ''3.0.3'',
      Components = Some \<lparr>Schemas = Some (fmap_of_list [(''S2'', 2)]), Responses = None,
        Parameters = None, RequestBodies = None, Headers = None\<rparr>,
      Info = None,
      Paths = Some (fmap_of_list [(''/b'', 2), (''/shared'', 20)]),
      Servers3 = [],
      Tags = Some [tag_B, tag_C]\<rparr>"

definition doc3 :: "(nat, nat, nat, nat, nat, nat) T" where
  "doc3 = doc2\<lparr>Paths := Some (fmap_of_list [(''/b'', 2)])\<rparr>"

text \<open>
  Two documents as the loader gives them for an OpenAPI 3 file with no components
  section: one with path \<open>/a\<close> and the tags A and B, one with path \<open>/b\<close> and no tags.
\<close>

definition bare_doc1 :: "(nat, nat, nat, nat, nat, nat) T" where
  "bare_doc1 =
     \<lparr>OpenAPI = ''3.0.1'',
      Components = None,
      Info = Some \<lparr>Title = ''API 1'', InfoVersion = ''1.0.0''\<rparr>,
      Paths = Some (fmap_of_list [(''/a'', 1)]),
      Servers3 = [],
      Tags = Some [tag_A, tag_B]\<rparr>"

definition bare_doc2 :: "(nat, nat, nat, nat, nat, nat) T" where
  "bare_doc2 =
     \<lparr>OpenAPI = ''3.0.1'',
      Components = None,
      Info = Some \<lparr>Title = ''API 2'', InfoVersion = ''1.0.0''\<rparr>,
      Paths = Some (fmap_of_list [(''/b'', 2)]),
      Servers3 = [],
      Tags = None\<rparr>"

definition example_kin :: "(unit, nat, nat, nat, nat, nat, nat) kin_openapi" where
  "example_kin =
     \<lparr>LoadFromData = (\<lambda>data. if data = yaml_openapi3 then Inr doc1 else Inl ''failed to unmarshal data''),
      openapi2_UnmarshalJSON = (\<lambda>data. if data = json_swagger2 then Inr () else Inl ''unexpected end of JSON input''),
      ToV3 = (\<lambda>w. Inr doc2),
      yaml_Marshal = (\<lambda>doc. Inr ''openapi: 3.0.1''),
      Paths_Map_nil = Some fmempty\<rparr>"

definition url_ok :: string where
  "url_ok = ''https://example.com/swagger.json''"

definition url_created :: string where
  "url_created = ''https://example.com/created.json''"

definition example_system :: "(string, bytes) fmap system" where
  "example_system =
     \<lparr>http_Get = (\<lambda>url.
        if url = url_ok then Inr \<lparr>StatusCode = 200, Body = Inr json_swagger2\<rparr>
        else if url = url_created then Inr \<lparr>StatusCode = 201, Body = Inr json_swagger2\<rparr>
        else Inl ''no such host''),
      os_ReadFile = (\<lambda>fs path.
        case fmlookup fs path of None \<Rightarrow> Inl ''no such file or directory'' | Some data \<Rightarrow> Inr data),
      os_WriteFile = (\<lambda>fs path data. (None, fmupd path data fs))\<rparr>"

definition example_fs :: "(string, bytes) fmap" where
  "example_fs = fmap_of_list [(''api.yaml'', yaml_openapi3), (''legacy.json'', json_swagger2)]"

definition example_config :: Config where
  "example_config =
     \<lparr>InputPaths = [''api.yaml'', ''legacy.json''], OutputPath = ''merged.yaml'',
      Servers = Some [\<lparr>URL = ''https://x'', Description = ''D''\<rparr>]\<rparr>"


section \<open>Properties of New\<close>

text \<open>
  C8, as the code has it. \<open>New\<close> substitutes the default list exactly when the configured
  server list is nil (unset); every other list is kept unchanged, the empty non-nil list
  included. The default list has four entries: development, test, staging and production,
  with fixed host names.
\<close>

theorem New_servers:
  "(Servers cfg = None \<longrightarrow> config (New cfg) = cfg\<lparr>Servers := DefaultServers\<rparr>)
   \<and> (Servers cfg \<noteq> None \<longrightarrow> config (New cfg) = cfg)
   \<and> len DefaultServers = 4
   \<and> map URL (elems DefaultServers) = [''https://api-dev.domain.com'', ''https://api-test.domain.com'',
        ''https://api-stg.domain.com'', ''https://api.domain.com'']
   \<and> map Description (elems DefaultServers) = [''Development Environment'', ''Test Environment'',
        ''Staging Environment'', ''Production Environment'']"
  by (simp add: New_def DefaultServers_def len_def elems_def)

text \<open>
  C8 as stated fails: an empty server list that is not nil is not replaced by the
  defaults, since line 56 tests \<open>config.Servers == nil\<close>.
\<close>

theorem New_keeps_empty_list:
  "len (Servers \<lparr>InputPaths = [''test1.yaml''], OutputPath = ''output.yaml'', Servers = Some []\<rparr>) = 0
   \<and> Servers (config (New \<lparr>InputPaths = [''test1.yaml''], OutputPath = ''output.yaml'', Servers = Some []\<rparr>)) = Some []
   \<and> Servers (config (New \<lparr>InputPaths = [''test1.yaml''], OutputPath = ''output.yaml'', Servers = Some []\<rparr>))
       \<noteq> DefaultServers"
  by (simp add: New_def len_def elems_def DefaultServers_def)

theorem New_servers_witness:
  "Servers (config (New \<lparr>InputPaths = [''test1.yaml''], OutputPath = ''output.yaml'', Servers = None\<rparr>)) = DefaultServers
   \<and> config (New example_config) = example_config"
  using New_servers [of "\<lparr>InputPaths = [''test1.yaml''], OutputPath = ''output.yaml'', Servers = None\<rparr>"]
    New_servers [of example_config]
  by (simp add: example_config_def)

section \<open>Properties of detectSwaggerVersion\<close>

lemma inspect_keys_recognized:
  "inspect_keys E obj yaml =
     (if recognized obj then Some \<lparr>Version = version_in E obj, IsYAML = yaml\<rparr> else None)"
  by (simp add: inspect_keys_def recognized_def version_in_def split: option.splits)

text \<open>
  C1, as the code has it. The YAML decode comes first: when it succeeds and its map holds
  key \<open>swagger\<close> or key \<open>openapi\<close>, the result carries \<open>IsYAML = true\<close>, whatever the
  bytes are (a JSON object that the YAML decoder accepts included). Only when the YAML
  attempt fails or finds neither key is the JSON decode attempted, and then a recognized
  key yields the version with \<open>IsYAML = false\<close>; when that fails too the result is the
  error "unable to detect swagger/openapi version". The version is the rendered value of
  key \<open>swagger\<close> if present, else of key \<open>openapi\<close>.
\<close>

theorem detectSwaggerVersion_yaml_first:
  assumes "yaml_Unmarshal E data fmempty = (err1, obj1)"
      and "json_Unmarshal E data obj1 = (err2, obj2)"
  shows "(err1 = None \<and> recognized obj1 \<longrightarrow>
            detectSwaggerVersion E data = Inr \<lparr>Version = version_in E obj1, IsYAML = True\<rparr>)
       \<and> ((err1 \<noteq> None \<or> \<not> recognized obj1) \<and> err2 = None \<and> recognized obj2 \<longrightarrow>
            detectSwaggerVersion E data = Inr \<lparr>Version = version_in E obj2, IsYAML = False\<rparr>)
       \<and> ((err1 \<noteq> None \<or> \<not> recognized obj1) \<and> (err2 \<noteq> None \<or> \<not> recognized obj2) \<longrightarrow>
            detectSwaggerVersion E data = Inl UnableToDetect)"
  using assms
  by (auto simp: detectSwaggerVersion_def try_yaml_def try_json_def inspect_keys_recognized
           split: option.splits)

lemma json_ne: "json_swagger2_dup \<noteq> json_swagger2" "json_swagger2_dup \<noteq> yaml_openapi3" "json_swagger2 \<noteq> yaml_openapi3"
  by (simp_all add: json_swagger2_dup_def json_swagger2_def yaml_openapi3_def)

text \<open>
  C1 as stated fails on the JSON input \<open>{"swagger":"2.0","info":{}}\<close>: a JSON object is
  a YAML flow mapping, the YAML decoder accepts it and finds key \<open>swagger\<close>, and line 69
  returns version "2.0" with \<open>IsYAML = true\<close>, not false.
\<close>

theorem detect_json_input_is_yaml:
  "detectSwaggerVersion example_encoding json_swagger2 = Inr \<lparr>Version = ''2.0'', IsYAML = True\<rparr>"
  by (simp add: detectSwaggerVersion_def try_yaml_def example_encoding_def inspect_keys_def
      swagger2_obj_def)

theorem detectSwaggerVersion_yaml_first_witness:
  "detectSwaggerVersion example_encoding json_swagger2 = Inr \<lparr>Version = ''2.0'', IsYAML = True\<rparr>
   \<and> detectSwaggerVersion example_encoding json_swagger2_dup = Inr \<lparr>Version = ''2.0'', IsYAML = False\<rparr>
   \<and> detectSwaggerVersion example_encoding ''not an api description'' = Inl UnableToDetect"
proof -
  have y1: "yaml_Unmarshal example_encoding json_swagger2 fmempty = (None, swagger2_obj)"
    by (simp add: example_encoding_def)
  have j1: "json_Unmarshal example_encoding json_swagger2 swagger2_obj = (None, swagger2_obj)"
    by (simp add: example_encoding_def)
  have y2: "yaml_Unmarshal example_encoding json_swagger2_dup fmempty = (Some ''yaml: unmarshal errors'', fmempty)"
    by (simp add: example_encoding_def json_ne)
  have j2: "json_Unmarshal example_encoding json_swagger2_dup fmempty = (None, swagger2_obj)"
    by (simp add: example_encoding_def)
  have y3: "yaml_Unmarshal example_encoding ''not an api description'' fmempty = (Some ''yaml: unmarshal errors'', fmempty)"
    by (simp add: example_encoding_def json_swagger2_def yaml_openapi3_def)
  have j3: "json_Unmarshal example_encoding ''not an api description'' fmempty = (Some ''invalid character'', fmempty)"
    by (simp add: example_encoding_def json_swagger2_def json_swagger2_dup_def)
  have r: "recognized swagger2_obj" "version_in example_encoding swagger2_obj = ''2.0''"
    by (simp_all add: recognized_def version_in_def swagger2_obj_def example_encoding_def)
  show ?thesis
    using detectSwaggerVersion_yaml_first [OF y1 j1] detectSwaggerVersion_yaml_first [OF y2 j2]
      detectSwaggerVersion_yaml_first [OF y3 j3] r
    by simp
qed

section \<open>Properties of readDataFromPath\<close>

text \<open>
  C9, as the code has it. For a locator that starts with \<open>http://\<close> or \<open>https://\<close>,
  \<open>readDataFromPath\<close> returns the body bytes exactly when the request succeeds, the
  status is 200 (\<open>http.StatusOK\<close>) and the body is read without error. A transport
  error, every status other than 200 (other 2xx statuses included) and a failure to read
  the body each yield an error that names the locator.
\<close>

theorem readDataFromPath_url:
  assumes "HasPrefix path ''http://'' \<or> HasPrefix path ''https://''"
  shows "(readDataFromPath W fs path = Inr data \<longleftrightarrow>
            (\<exists>resp. http_Get W path = Inr resp \<and> StatusCode resp = 200 \<and> Body resp = Inr data))
     \<and> (\<forall>err. http_Get W path = Inl err \<longrightarrow> readDataFromPath W fs path = Inl (FetchURLFailed path err))
     \<and> (\<forall>resp. http_Get W path = Inr resp \<and> StatusCode resp \<noteq> 200 \<longrightarrow>
            readDataFromPath W fs path = Inl (HTTPStatusFailed (StatusCode resp) path))
     \<and> (\<forall>resp err. http_Get W path = Inr resp \<and> StatusCode resp = 200 \<and> Body resp = Inl err \<longrightarrow>
            readDataFromPath W fs path = Inl (ReadBodyFailed path err))"
  using assms
  by (auto simp: readDataFromPath_def StatusOK_def split: sum.splits)

lemma url_prefix: "HasPrefix url_ok ''https://''" "HasPrefix url_created ''https://''"
  "HasPrefix ''http://unknown.invalid/api.yaml'' ''http://''"
  by (simp_all add: HasPrefix_def url_ok_def url_created_def)

text \<open>
  C9 as stated fails: a response with the 2xx status 201 and a readable body is refused
  with the error "HTTP request failed with status 201", since line 218 compares the
  status with \<open>http.StatusOK\<close>.
\<close>

theorem readDataFromPath_rejects_201:
  "http_Get example_system url_created = Inr \<lparr>StatusCode = 201, Body = Inr json_swagger2\<rparr>
   \<and> readDataFromPath example_system example_fs url_created = Inl (HTTPStatusFailed 201 url_created)"
proof -
  have g: "http_Get example_system url_created = Inr \<lparr>StatusCode = 201, Body = Inr json_swagger2\<rparr>"
    by (simp add: example_system_def url_created_def url_ok_def)
  then show ?thesis
    by (simp add: readDataFromPath_def url_prefix StatusOK_def)
qed

theorem readDataFromPath_url_witness:
  "readDataFromPath example_system example_fs url_ok = Inr json_swagger2
   \<and> readDataFromPath example_system example_fs url_created = Inl (HTTPStatusFailed 201 url_created)
   \<and> readDataFromPath example_system example_fs ''http://unknown.invalid/api.yaml''
       = Inl (FetchURLFailed ''http://unknown.invalid/api.yaml'' ''no such host'')"
proof -
  have g1: "http_Get example_system url_ok = Inr \<lparr>StatusCode = 200, Body = Inr json_swagger2\<rparr>"
    by (simp add: example_system_def)
  have g2: "http_Get example_system url_created = Inr \<lparr>StatusCode = 201, Body = Inr json_swagger2\<rparr>"
    by (simp add: example_system_def url_created_def url_ok_def)
  have g3: "http_Get example_system ''http://unknown.invalid/api.yaml'' = Inl ''no such host''"
    by (simp add: example_system_def url_created_def url_ok_def)
  from readDataFromPath_url [of url_ok example_system example_fs json_swagger2] url_prefix(1) g1
  have "readDataFromPath example_system example_fs url_ok = Inr json_swagger2" by simp
  moreover
  from readDataFromPath_url [of url_created example_system example_fs json_swagger2] url_prefix(2) g2
  have "readDataFromPath example_system example_fs url_created = Inl (HTTPStatusFailed 201 url_created)"
    by simp
  moreover
  from readDataFromPath_url [of "''http://unknown.invalid/api.yaml''" example_system example_fs json_swagger2]
    url_prefix(3) g3
  have "readDataFromPath example_system example_fs ''http://unknown.invalid/api.yaml''
       = Inl (FetchURLFailed ''http://unknown.invalid/api.yaml'' ''no such host'')"
    by simp
  ultimately show ?thesis by simp
qed

section \<open>Properties of processSwaggerFile\<close>

text \<open>
  C3. Whenever \<open>processSwaggerFile\<close> succeeds, the document it returns has \<open>OpenAPI\<close>
  equal to "3.0.1" and its servers are the configured servers, one for one and in order,
  whatever servers the source declared and whichever branch (OpenAPI 3 or Swagger 2, YAML
  or JSON) produced the document.
\<close>

theorem processSwaggerFile_overrides:
  assumes "processSwaggerFile E K W m fs filePath = Inr doc"
  shows "OpenAPI doc = ''3.0.1''
     \<and> Servers3 doc = map (\<lambda>s. \<lparr>srvURL = URL s, srvDescription = Description s\<rparr>) (elems (Servers (config m)))
     \<and> length (Servers3 doc) = len (Servers (config m))"
  using assms
  by (auto simp: processSwaggerFile_def override_servers_def len_def split: sum.splits)

lemma example_ne: "json_swagger2 \<noteq> yaml_openapi3" "yaml_openapi3 \<noteq> json_swagger2"
  by (simp_all add: json_swagger2_def yaml_openapi3_def)

lemma read_api: "readDataFromPath example_system example_fs ''api.yaml'' = Inr yaml_openapi3"
  by (simp add: readDataFromPath_def HasPrefix_def example_system_def example_fs_def)

lemma detect_api: "detectSwaggerVersion example_encoding yaml_openapi3 = Inr \<lparr>Version = ''3.0.1'', IsYAML = True\<rparr>"
  by (simp add: detectSwaggerVersion_def try_yaml_def example_encoding_def inspect_keys_def
      openapi3_obj_def example_ne)

lemma convert_api:
  "convertToOpenAPI3 example_encoding example_kin yaml_openapi3 \<lparr>Version = ''3.0.1'', IsYAML = True\<rparr> = Inr doc1"
  by (simp add: convertToOpenAPI3_def HasPrefix_def example_kin_def)

lemma process_api:
  "processSwaggerFile example_encoding example_kin example_system (New example_config) example_fs ''api.yaml''
     = Inr (doc1\<lparr>OpenAPI := ''3.0.1'', Servers3 := [\<lparr>srvURL = ''https://x'', srvDescription = ''D''\<rparr>]\<rparr>)"
  by (simp add: processSwaggerFile_def read_api detect_api convert_api override_servers_def
      New_def example_config_def elems_def)

lemma read_legacy: "readDataFromPath example_system example_fs ''legacy.json'' = Inr json_swagger2"
  by (simp add: readDataFromPath_def HasPrefix_def example_system_def example_fs_def)

lemma detect_legacy:
  "detectSwaggerVersion example_encoding json_swagger2 = Inr \<lparr>Version = ''2.0'', IsYAML = True\<rparr>"
  by (simp add: detectSwaggerVersion_def try_yaml_def example_encoding_def inspect_keys_def
      swagger2_obj_def)

lemma convert_legacy:
  "convertToOpenAPI3 example_encoding example_kin json_swagger2 \<lparr>Version = ''2.0'', IsYAML = True\<rparr> = Inr doc2"
  by (simp add: convertToOpenAPI3_def HasPrefix_def yaml_to_json_def example_encoding_def example_kin_def)

lemma process_legacy:
  "processSwaggerFile example_encoding example_kin example_system (New example_config) example_fs ''legacy.json''
     = Inr (doc2\<lparr>OpenAPI := ''3.0.1'', Servers3 := [\<lparr>srvURL = ''https://x'', srvDescription = ''D''\<rparr>]\<rparr>)"
  by (simp add: processSwaggerFile_def read_legacy detect_legacy convert_legacy override_servers_def
      New_def example_config_def elems_def)

theorem processSwaggerFile_overrides_witness:
  "Servers3 doc1 = [\<lparr>srvURL = ''https://declared.example'', srvDescription = ''declared''\<rparr>]
   \<and> (\<exists>doc. processSwaggerFile example_encoding example_kin example_system (New example_config)
          example_fs ''api.yaml'' = Inr doc
        \<and> OpenAPI doc = ''3.0.1''
        \<and> Servers3 doc = [\<lparr>srvURL = ''https://x'', srvDescription = ''D''\<rparr>])
   \<and> (\<exists>doc. processSwaggerFile example_encoding example_kin example_system (New example_config)
          example_fs ''legacy.json'' = Inr doc
        \<and> OpenAPI doc = ''3.0.1''
        \<and> Servers3 doc = [\<lparr>srvURL = ''https://x'', srvDescription = ''D''\<rparr>])"
proof -
  have s: "elems (Servers (config (New example_config))) = [\<lparr>URL = ''https://x'', Description = ''D''\<rparr>]"
    by (simp add: New_def example_config_def elems_def)
  have d: "Servers3 doc1 = [\<lparr>srvURL = ''https://declared.example'', srvDescription = ''declared''\<rparr>]"
    by (simp add: doc1_def)
  from processSwaggerFile_overrides [OF process_api] processSwaggerFile_overrides [OF process_legacy]
    s d show ?thesis
    by (simp only: process_api process_legacy) simp
qed

section \<open>Properties of Merge\<close>








section \<open>Properties of mergeOpenAPI3\<close>

subsection \<open>When the loop body panics\<close>

lemma Components_merge_paths: "Components (merge_paths merged doc) = Components merged"
  by (cases "Paths doc"; cases "Paths merged") (simp_all add: merge_paths_def)

lemma Components_merge_tags: "Components (merge_tags m doc) = Components m"
  by (simp add: merge_tags_def)

lemma merge_doc_panics:
  "Components merged = None \<or> Components doc = None \<Longrightarrow> merge_doc merged doc = Inl NilDereference"
  by (cases "Components merged"; cases "Components doc")
     (simp_all add: merge_doc_def Let_def Components_merge_paths)

lemma merge_doc_returns:
  "Components merged = Some mc \<Longrightarrow> Components doc = Some dc
   \<Longrightarrow> merge_doc merged doc =
       Inr (merge_tags (merge_paths merged doc
              \<lparr>Components := Some (merge_components (init_components mc) dc)\<rparr>) doc)"
  by (simp add: merge_doc_def Let_def Components_merge_paths)

lemma merge_doc_error: "merge_doc merged doc = Inl e \<Longrightarrow> e = NilDereference"
  by (cases "Components merged"; cases "Components doc")
     (simp_all add: merge_doc_def Let_def Components_merge_paths)

lemma merge_doc_Inr_Components:
  "merge_doc merged doc = Inr m \<Longrightarrow> Components merged \<noteq> None \<and> Components doc \<noteq> None \<and> Components m \<noteq> None"
  by (cases "Components merged"; cases "Components doc")
     (auto simp: merge_doc_def Let_def Components_merge_paths Components_merge_tags)

lemma merge_loop_error: "merge_loop merged docs = Inl e \<Longrightarrow> e = NilDereference"
proof (induction docs arbitrary: merged)
  case Nil
  then show ?case by simp
next
  case (Cons d ds)
  show ?case
  proof (cases "merge_doc merged d")
    case (Inl e')
    with Cons.prems show ?thesis by (simp add: merge_doc_error)
  next
    case (Inr m)
    with Cons.prems have "merge_loop m ds = Inl e" by simp
    then show ?thesis by (rule Cons.IH)
  qed
qed

text \<open>
  With two documents or more, \<open>mergeOpenAPI3\<close> returns a document exactly when every
  document has components; otherwise it panics.
\<close>

lemma merge_loop_returns_iff:
  "(\<exists>m. merge_loop merged docs = Inr m) \<longleftrightarrow>
     docs = [] \<or> (Components merged \<noteq> None \<and> (\<forall>d\<in>set docs. Components d \<noteq> None))"
proof (induction docs arbitrary: merged)
  case Nil
  then show ?case by simp
next
  case (Cons d ds)
  show ?case
  proof (cases "merge_doc merged d")
    case (Inl e)
    with merge_doc_returns [of merged _ d] have "Components merged = None \<or> Components d = None"
      by (cases "Components merged"; cases "Components d") auto
    with Inl show ?thesis by auto
  next
    case (Inr m)
    from merge_doc_Inr_Components [OF Inr] Cons.IH [of m] Inr show ?thesis by auto
  qed
qed

lemma mergeOpenAPI3_panics:
  "d \<in> set docs \<Longrightarrow> Components d = None \<Longrightarrow> 2 \<le> length docs
   \<Longrightarrow> mergeOpenAPI3 docs = Inl NilDereference"
proof -
  assume d: "d \<in> set docs" "Components d = None" and l: "2 \<le> length docs"
  from l obtain x y ys where docs: "docs = x # y # ys"
    by (cases docs; cases "tl docs") auto
  have "\<not> (\<exists>m. merge_loop x (y # ys) = Inr m)"
    using d merge_loop_returns_iff [of x "y # ys"] by (auto simp: docs)
  then obtain e where "merge_loop x (y # ys) = Inl e"
    by (cases "merge_loop x (y # ys)") auto
  with merge_loop_error [OF this] show ?thesis by (simp add: mergeOpenAPI3_def docs)
qed

subsection \<open>Empty and single input\<close>

text \<open>
  C5. \<open>mergeOpenAPI3\<close> on the empty sequence fails with the error "no documents to
  merge" and gives no document; on a non-empty sequence it does not fail with that
  error.
\<close>

theorem mergeOpenAPI3_empty_input:
  fixes docs :: "('p, 's, 'r, 'q, 'b, 'h) T list"
  shows "mergeOpenAPI3 ([] :: ('p, 's, 'r, 'q, 'b, 'h) T list) = Inl NoDocuments
   \<and> (docs \<noteq> [] \<longrightarrow> mergeOpenAPI3 docs \<noteq> Inl NoDocuments)"
proof (cases docs)
  case Nil
  then show ?thesis by (simp add: mergeOpenAPI3_def)
next
  case (Cons d ds)
  have "merge_loop d ds \<noteq> Inl NoDocuments"
    using merge_loop_error [of d ds NoDocuments] by auto
  with Cons show ?thesis by (simp add: mergeOpenAPI3_def)
qed

theorem mergeOpenAPI3_empty_input_witness:
  "mergeOpenAPI3 ([] :: (nat, nat, nat, nat, nat, nat) T list) = Inl NoDocuments
   \<and> mergeOpenAPI3 [doc1, doc2] \<noteq> Inl NoDocuments
   \<and> mergeOpenAPI3 [bare_doc1, doc2] \<noteq> Inl NoDocuments"
  using mergeOpenAPI3_empty_input [of "[doc1, doc2]"] mergeOpenAPI3_empty_input [of "[bare_doc1, doc2]"]
  by simp

text \<open>
  C6. For a sequence of one document, \<open>mergeOpenAPI3\<close> returns that document itself: the
  loop over the later documents does not run.
\<close>

theorem mergeOpenAPI3_single:
  "mergeOpenAPI3 [d] = Inr d"
  by (simp add: mergeOpenAPI3_def)

subsection \<open>Tags\<close>

lemma elems_go_append: "elems (go_append s xs) = elems s @ xs"
  by (simp add: go_append_def elems_def)

lemma Tags_merge_paths: "Tags (merge_paths merged doc) = Tags merged"
  by (cases "Paths doc"; cases "Paths merged") (simp_all add: merge_paths_def)

lemma Tags_merge_tags: "Tags (merge_tags m doc) = go_append (Tags m) (elems (Tags doc))"
  by (cases "Tags doc") (simp_all add: merge_tags_def go_append_def elems_def)

lemma Tags_merge_doc:
  "merge_doc merged doc = Inr m \<Longrightarrow> Tags m = go_append (Tags merged) (elems (Tags doc))"
  by (cases "Components merged"; cases "Components doc")
     (auto simp: merge_doc_def Let_def Components_merge_paths Tags_merge_tags Tags_merge_paths)

lemma Tags_merge_loop:
  "merge_loop merged docs = Inr m
   \<Longrightarrow> elems (Tags m) = elems (Tags merged) @ concat (map (\<lambda>d. elems (Tags d)) docs)"
proof (induction docs arbitrary: merged)
  case Nil
  then show ?case by simp
next
  case (Cons d ds)
  from Cons.prems obtain m' where m': "merge_doc merged d = Inr m'" and l: "merge_loop m' ds = Inr m"
    by (cases "merge_doc merged d") auto
  from Cons.IH [OF l] Tags_merge_doc [OF m'] show ?case
    by (simp add: elems_go_append)
qed

text \<open>
  Whenever \<open>mergeOpenAPI3\<close> returns a document, its tags are the tags of the input
  documents, concatenated in input order with nothing removed.
\<close>

lemma mergeOpenAPI3_tags_when_returns:
  "mergeOpenAPI3 docs = Inr merged
   \<Longrightarrow> elems (Tags merged) = concat (map (\<lambda>d. elems (Tags d)) docs)"
  by (cases docs) (auto simp: mergeOpenAPI3_def dest: Tags_merge_loop)

lemma mergeOpenAPI3_tags_example:
  "mergeOpenAPI3 [doc1, doc2] = Inr merged \<Longrightarrow> elems (Tags merged) = [tag_A, tag_B, tag_B, tag_C]"
  by (drule mergeOpenAPI3_tags_when_returns) (simp add: doc1_def doc2_def elems_def)

text \<open>
  C7. Merging documents whose tag sequences are \<open>[A, B]\<close> and \<open>[B, C]\<close> is to yield the
  tag sequence \<open>[A, B, B, C]\<close>. The code does not do so for every such pair: here the
  first document has the tags A and B and no components section, the second the tags B
  and C, and the merge panics at line 149 (a nil pointer dereference) and yields no tag
  sequence.
\<close>

theorem mergeOpenAPI3_tags_panic:
  "Tags bare_doc1 = Some [tag_A, tag_B] \<and> Tags doc2 = Some [tag_B, tag_C]
   \<and> mergeOpenAPI3 [bare_doc1, doc2] = Inl NilDereference"
  by (simp add: mergeOpenAPI3_def merge_doc_panics bare_doc1_def doc2_def)

subsection \<open>Paths\<close>

lemma range_store_is_loop:
  "distinct (map fst xs)
   \<Longrightarrow> fold (\<lambda>(key, item). Paths_Set key item) xs dst = range_store dst (fmap_of_list xs)"
proof (induction xs arbitrary: dst)
  case Nil
  then show ?case by (simp add: range_store_def)
next
  case (Cons x xs)
  obtain k v where x: "x = (k, v)" by (cases x)
  from Cons.prems x have k: "k |\<notin>| fmdom (fmap_of_list xs)" and d: "distinct (map fst xs)"
    by (auto simp: fset_of_list.rep_eq)
  have "fmupd k v dst ++\<^sub>f fmap_of_list xs = dst ++\<^sub>f fmupd k v (fmap_of_list xs)"
    by (rule fmap_ext) (use k in \<open>auto simp: fmlookup_dom_iff\<close>)
  with Cons.IH [OF d, of "Paths_Set k v dst"] show ?case
    by (simp add: x range_store_def Paths_Set_def)
qed


lemma paths_of_merge_paths:
  "paths_of (merge_paths merged doc) = paths_of merged ++\<^sub>f paths_of doc"
  by (simp add: paths_of_def merge_paths_def range_store_def Paths_Map_def split: option.splits)

lemma Paths_merge_tags: "Paths (merge_tags m d) = Paths m"
  by (simp add: merge_tags_def)

lemma paths_of_merge_doc:
  "merge_doc merged doc = Inr m \<Longrightarrow> paths_of m = paths_of merged ++\<^sub>f paths_of doc"
  using paths_of_merge_paths [of merged doc]
  by (cases "Components merged"; cases "Components doc")
     (auto simp: merge_doc_def Let_def Components_merge_paths paths_of_def Paths_merge_tags)

lemma paths_of_merge_loop:
  "merge_loop merged docs = Inr m
   \<Longrightarrow> paths_of m = foldl (++\<^sub>f) (paths_of merged) (map paths_of docs)"
proof (induction docs arbitrary: merged)
  case Nil
  then show ?case by simp
next
  case (Cons d ds)
  from Cons.prems obtain m' where m': "merge_doc merged d = Inr m'" and l: "merge_loop m' ds = Inr m"
    by (cases "merge_doc merged d") auto
  from Cons.IH [OF l] paths_of_merge_doc [OF m'] show ?case by simp
qed

lemma fmdom'_foldl_fmadd:
  "fmdom' (foldl (++\<^sub>f) a ms) = fmdom' a \<union> (\<Union>m\<in>set ms. fmdom' m)"
  by (induction ms arbitrary: a) auto

lemma fmlookup_foldl_last:
  "i < length ms \<Longrightarrow> k \<in> fmdom' (ms ! i)
   \<Longrightarrow> (\<forall>j. i < j \<and> j < length ms \<longrightarrow> k \<notin> fmdom' (ms ! j))
   \<Longrightarrow> fmlookup (foldl (++\<^sub>f) a ms) k = fmlookup (ms ! i) k"
proof (induction ms arbitrary: i rule: rev_induct)
  case Nil
  then show ?case by simp
next
  case (snoc y ys)
  show ?case
  proof (cases "i = length ys")
    case True
    with snoc.prems(2) have "k \<in> fmdom' y" by simp
    then have "k |\<in>| fmdom y" by (simp add: fmdom'_alt_def)
    with True show ?thesis by simp
  next
    case False
    with snoc.prems(1) have i: "i < length ys" by simp
    from snoc.prems(3) [rule_format, of "length ys"] i have "k \<notin> fmdom' y" by simp
    then have ny: "\<not> k |\<in>| fmdom y" by (simp add: fmdom'_alt_def)
    have "fmlookup (foldl (++\<^sub>f) a ys) k = fmlookup (ys ! i) k"
    proof (rule snoc.IH [OF i])
      from snoc.prems(2) i show "k \<in> fmdom' (ys ! i)" by (simp add: nth_append)
      show "\<forall>j. i < j \<and> j < length ys \<longrightarrow> k \<notin> fmdom' (ys ! j)"
      proof (intro allI impI)
        fix j assume j: "i < j \<and> j < length ys"
        with snoc.prems(3) [rule_format, of j] show "k \<notin> fmdom' (ys ! j)"
          by (simp add: nth_append)
      qed
    qed
    with ny i show ?thesis by (simp add: nth_append)
  qed
qed

lemma card_disjoint_sum:
  "(\<forall>i j. i < length ms \<and> j < length ms \<and> i \<noteq> j \<longrightarrow> fmdom' (ms ! i) \<inter> fmdom' (ms ! j) = {})
   \<Longrightarrow> card (\<Union>m\<in>set ms. fmdom' m) = sum_list (map (\<lambda>m. card (fmdom' m)) ms)"
proof (induction ms)
  case Nil
  then show ?case by simp
next
  case (Cons y ys)
  have tl: "\<forall>i j. i < length ys \<and> j < length ys \<and> i \<noteq> j \<longrightarrow> fmdom' (ys ! i) \<inter> fmdom' (ys ! j) = {}"
  proof (intro allI impI)
    fix i j assume "i < length ys \<and> j < length ys \<and> i \<noteq> j"
    with Cons.prems [rule_format, of "Suc i" "Suc j"] show "fmdom' (ys ! i) \<inter> fmdom' (ys ! j) = {}"
      by simp
  qed
  have dis: "fmdom' y \<inter> (\<Union>m\<in>set ys. fmdom' m) = {}"
  proof -
    have "fmdom' y \<inter> fmdom' m = {}" if "m \<in> set ys" for m
    proof -
      from that obtain j where j: "j < length ys" "ys ! j = m" by (auto simp: in_set_conv_nth)
      with Cons.prems [rule_format, of 0 "Suc j"] show ?thesis by simp
    qed
    then show ?thesis by blast
  qed
  have "card (fmdom' y \<union> (\<Union>m\<in>set ys. fmdom' m)) = card (fmdom' y) + card (\<Union>m\<in>set ys. fmdom' m)"
    by (rule card_Un_disjoint) (use dis in auto)
  with Cons.IH [OF tl] show ?case by simp
qed

text \<open>
  Whenever \<open>mergeOpenAPI3\<close> returns a document, the keys of its path mapping are exactly
  the union of the documents' path keys, so its size is the number of distinct keys; when
  the documents' key sets are pairwise disjoint the size is the sum of their sizes; and
  under a key the merged mapping holds the value of the last document that declares it.
\<close>

lemma mergeOpenAPI3_paths_when_returns:
  assumes "mergeOpenAPI3 docs = Inr merged"
  shows "fmdom' (paths_of merged) = (\<Union>d\<in>set docs. fmdom' (paths_of d))
    \<and> card (fmdom' (paths_of merged)) = card (\<Union>d\<in>set docs. fmdom' (paths_of d))
    \<and> ((\<forall>i j. i < length docs \<and> j < length docs \<and> i \<noteq> j \<longrightarrow>
           fmdom' (paths_of (docs ! i)) \<inter> fmdom' (paths_of (docs ! j)) = {}) \<longrightarrow>
         card (fmdom' (paths_of merged)) = sum_list (map (\<lambda>d. card (fmdom' (paths_of d))) docs))
    \<and> (\<forall>i k. i < length docs \<and> k \<in> fmdom' (paths_of (docs ! i))
           \<and> (\<forall>j. i < j \<and> j < length docs \<longrightarrow> k \<notin> fmdom' (paths_of (docs ! j))) \<longrightarrow>
         fmlookup (paths_of merged) k = fmlookup (paths_of (docs ! i)) k)"
proof -
  from assms obtain d ds where docs: "docs = d # ds" and l: "merge_loop d ds = Inr merged"
    by (cases docs) (auto simp: mergeOpenAPI3_def)
  let ?ms = "map paths_of docs"
  have p: "paths_of merged = foldl (++\<^sub>f) fmempty ?ms"
    by (simp add: docs paths_of_merge_loop [OF l])
  have keys: "fmdom' (paths_of merged) = (\<Union>x\<in>set docs. fmdom' (paths_of x))"
    by (simp add: p fmdom'_foldl_fmadd)
  have disj: "card (fmdom' (paths_of merged)) = sum_list (map (\<lambda>x. card (fmdom' (paths_of x))) docs)"
    if h: "\<forall>i j. i < length docs \<and> j < length docs \<and> i \<noteq> j \<longrightarrow>
           fmdom' (paths_of (docs ! i)) \<inter> fmdom' (paths_of (docs ! j)) = {}"
  proof -
    have "\<forall>i j. i < length ?ms \<and> j < length ?ms \<and> i \<noteq> j \<longrightarrow> fmdom' (?ms ! i) \<inter> fmdom' (?ms ! j) = {}"
      using h by simp
    from card_disjoint_sum [OF this] show ?thesis
      by (simp add: keys comp_def)
  qed
  have last: "fmlookup (paths_of merged) k = fmlookup (paths_of (docs ! i)) k"
    if h: "i < length docs \<and> k \<in> fmdom' (paths_of (docs ! i))
           \<and> (\<forall>j. i < j \<and> j < length docs \<longrightarrow> k \<notin> fmdom' (paths_of (docs ! j)))" for i k
  proof -
    have "fmlookup (foldl (++\<^sub>f) fmempty ?ms) k = fmlookup (?ms ! i) k"
      by (rule fmlookup_foldl_last) (use h in auto)
    with h show ?thesis by (simp add: p)
  qed
  show ?thesis
  proof (intro conjI allI impI)
    show "fmdom' (paths_of merged) = (\<Union>x\<in>set docs. fmdom' (paths_of x))" by (rule keys)
    show "card (fmdom' (paths_of merged)) = card (\<Union>x\<in>set docs. fmdom' (paths_of x))"
      by (simp only: keys)
  next
    assume "\<forall>i j. i < length docs \<and> j < length docs \<and> i \<noteq> j \<longrightarrow>
           fmdom' (paths_of (docs ! i)) \<inter> fmdom' (paths_of (docs ! j)) = {}"
    then show "card (fmdom' (paths_of merged)) = sum_list (map (\<lambda>x. card (fmdom' (paths_of x))) docs)"
      by (rule disj)
  next
    fix i k
    assume "i < length docs \<and> k \<in> fmdom' (paths_of (docs ! i))
           \<and> (\<forall>j. i < j \<and> j < length docs \<longrightarrow> k \<notin> fmdom' (paths_of (docs ! j)))"
    then show "fmlookup (paths_of merged) k = fmlookup (paths_of (docs ! i)) k"
      by (rule last)
  qed
qed

text \<open>
  C2. For every non-empty list of documents the merged path mapping is to hold exactly
  the union of the documents' path keys, of size the sum of the sizes when the key sets
  are disjoint. The code does not do so for every list: here the documents
  declare the disjoint paths \<open>/a\<close> and \<open>/shared\<close>, and \<open>/b\<close>, the second document has no
  components section, and the merge panics at line 166 (a nil pointer dereference) and
  yields no path mapping.
\<close>

theorem mergeOpenAPI3_paths_panic:
  "fmdom' (paths_of doc1) = {''/a'', ''/shared''} \<and> fmdom' (paths_of bare_doc2) = {''/b''}
   \<and> mergeOpenAPI3 [doc1, bare_doc2] = Inl NilDereference"
proof -
  have "Components bare_doc2 = None" by (simp add: bare_doc2_def)
  then have "mergeOpenAPI3 [doc1, bare_doc2] = Inl NilDereference"
    by (simp add: mergeOpenAPI3_def merge_doc_panics)
  then show ?thesis
    by (auto simp: paths_of_def doc1_def bare_doc2_def Paths_Map_def)
qed

section \<open>Properties of GetStats\<close>

lemma process_files_single:
  "processSwaggerFile E K W m fs p = Inr doc \<Longrightarrow> process_files E K W m fs [p] [] = Inr [doc]"
  by simp

text \<open>
  With one input, \<open>mergeOpenAPI3\<close> returns the document as it is. When the document has
  components and no paths object, \<open>GetStats\<close> calls \<open>Map\<close> on the nil pointer: the outcome
  is the one the library's method has on a nil receiver.
\<close>

lemma GetStats_single_nil_paths:
  assumes "InputPaths (config m) = [p]"
      and "processSwaggerFile E K W m fs p = Inr doc"
      and "Paths doc = None"
      and "Components doc = Some c"
  shows "GetStats E K W m fs =
     (case Paths_Map_nil K of
        None \<Rightarrow> Inl NilDereference
      | Some pm \<Rightarrow>
          Inr \<lparr>total_files = 1, total_paths = card (fmdom' pm),
               total_schemas = len_map (Schemas c), total_tags = len (Tags doc)\<rparr>)"
  using assms
  by (simp add: GetStats_def mergeOpenAPI3_def Paths_Map_ptr_def len_map_def split: option.splits)

text \<open>
  With one input whose document has no components, \<open>GetStats\<close> panics, at line 375 if
  not before.
\<close>

lemma GetStats_single_nil_components:
  assumes "InputPaths (config m) = [p]"
      and "processSwaggerFile E K W m fs p = Inr doc"
      and "Components doc = None"
  shows "GetStats E K W m fs = Inl NilDereference"
  using assms
  by (simp add: GetStats_def mergeOpenAPI3_def split: option.splits)

end
